theory Spec2Isabelle
  imports Complex_Main
begin

section \<open>Conventions of the embedding\<close>

text \<open>
  The engine is Python. Python \<open>int\<close> is modelled as \<^typ>\<open>int\<close>, Python \<open>float\<close>
  as \<^typ>\<open>real\<close>: every arithmetic operation is the exact one, so rounding and
  overflow of IEEE doubles are outside the model. A raised exception is a value
  \<open>Inl e\<close> of the result type \<open>py_error + 'a\<close>. The Streamlit widgets, the charts and
  the rendered text are the callers' side: a calculator takes the widget values as
  arguments and returns the numbers it hands to the display. The amortization
  schedule is modelled in two layers: the numbers of each period, as the loop
  computes them, and the rows of the table, where each amount is the two-decimal
  number that the source writes into the row.
\<close>

datatype py_error = KeyError | ZeroDivisionError

section \<open>investment_advisor.py\<close>

record allocation =
  stocks :: int
  bonds :: int
  cash :: int

text \<open>\<open>self.risk_profiles\<close>: the three base allocations (the \<open>description\<close> entry
  of each profile is text only and is not read by the computation).\<close>

definition risk_profiles :: "string \<rightharpoonup> allocation" where
  "risk_profiles =
     [''conservative'' \<mapsto> \<lparr>stocks = 30, bonds = 60, cash = 10\<rparr>,
      ''moderate'' \<mapsto> \<lparr>stocks = 50, bonds = 40, cash = 10\<rparr>,
      ''aggressive'' \<mapsto> \<lparr>stocks = 70, bonds = 20, cash = 10\<rparr>]"

text \<open>The \<open>user_profile\<close> dictionary: a key may be absent, \<open>.get\<close> supplies the default.\<close>

record user_profile =
  risk_tolerance :: "string option"
  age :: "int option"
  income :: "int option"

definition dict_get :: "'a option \<Rightarrow> 'a \<Rightarrow> 'a" where
  "dict_get entry dflt = (case entry of None \<Rightarrow> dflt | Some v \<Rightarrow> v)"

text \<open>\<open>_get_portfolio_recommendation\<close>, up to the allocation it prints.
  \<open>self.risk_profiles[risk_tolerance]\<close> raises \<open>KeyError\<close> on an unknown profile.\<close>

definition get_portfolio_recommendation :: "user_profile \<Rightarrow> py_error + allocation" where
  "get_portfolio_recommendation profile =
     (let risk = dict_get (risk_tolerance profile) ''moderate'';
          a = dict_get (age profile) 30;
          stock_adjustment = (if a < 30 then 10 else if a < 50 then 0 else - 10)
      in case risk_profiles risk of
           None \<Rightarrow> Inl KeyError
         | Some base_allocation \<Rightarrow>
             (let b1 = base_allocation\<lparr>stocks :=
                         max 20 (min 80 (stocks base_allocation + stock_adjustment))\<rparr>;
                  b2 = b1\<lparr>bonds := 100 - stocks b1 - cash b1\<rparr>
              in Inr b2))"

section \<open>budget_tracker.py\<close>

text \<open>One entry of \<open>st.session_state.budget_data\<close>, as \<open>add_expense\<close> builds it.\<close>

record expense =
  date :: string
  amount :: real
  category :: string
  description :: string

text \<open>The dictionary returned by \<open>get_budget_summary\<close>, with its keys
  \<open>total\<close>, \<open>categories\<close> and \<open>count\<close>.\<close>

record budget_summary =
  summary_total :: real
  summary_categories :: "string \<rightharpoonup> real"
  summary_count :: nat

text \<open>\<open>df.groupby('category')['amount'].sum().to_dict()\<close>: the amounts of each
  category that occurs, added up.\<close>

fun groupby_sum :: "expense list \<Rightarrow> (string \<rightharpoonup> real) \<Rightarrow> (string \<rightharpoonup> real)" where
  "groupby_sum [] m = m"
| "groupby_sum (e # es) m =
     groupby_sum es (m(category e \<mapsto> (case m (category e) of None \<Rightarrow> amount e
                                          | Some s \<Rightarrow> s + amount e)))"

text \<open>\<open>get_budget_summary\<close>. The argument is the \<open>budget_data\<close> entry of the session
  state: \<open>None\<close> when the key is absent. The first branch is taken when the key is
  absent or the list is empty.\<close>

definition get_budget_summary :: "expense list option \<Rightarrow> budget_summary" where
  "get_budget_summary budget_data =
     (case budget_data of
        None \<Rightarrow> \<lparr>summary_total = 0, summary_categories = Map.empty, summary_count = 0\<rparr>
      | Some df \<Rightarrow>
          if df = [] then \<lparr>summary_total = 0, summary_categories = Map.empty, summary_count = 0\<rparr>
          else \<lparr>summary_total = sum_list (map amount df),
                summary_categories = groupby_sum df Map.empty,
                summary_count = length df\<rparr>)"

section \<open>financial_calculators.py\<close>

subsection \<open>Python arithmetic that can raise\<close>

text \<open>\<open>a / b\<close> on floats raises \<open>ZeroDivisionError\<close> when \<open>b\<close> is zero.\<close>

definition py_truediv :: "real \<Rightarrow> real \<Rightarrow> py_error + real" where
  "py_truediv a b = (if b = 0 then Inl ZeroDivisionError else Inr (a / b))"

text \<open>\<open>x ** n\<close> with a float base and an int exponent: a negative power of zero
  raises \<open>ZeroDivisionError\<close>. Python also raises \<open>OverflowError\<close> when the power
  leaves the range of doubles (beyond about \<open>2 ^ 1024\<close>); the exact reals of the model
  have no such bound, so that exception is not a value of \<open>py_pow\<close>. For the bases and
  exponents that the number inputs allow (rates up to 50, terms up to 50 years) the
  power stays below \<open>2 ^ 38\<close>, see \<open>growth_power_range\<close>.\<close>

definition py_pow :: "real \<Rightarrow> int \<Rightarrow> py_error + real" where
  "py_pow x n =
     (if 0 \<le> n then Inr (x ^ nat n)
      else if x = 0 then Inl ZeroDivisionError
      else Inr (1 / x ^ nat (- n)))"

text \<open>Sequencing: an exception raised by the first computation ends the second.\<close>

definition py_bind :: "py_error + 'a \<Rightarrow> ('a \<Rightarrow> py_error + 'b) \<Rightarrow> py_error + 'b" where
  "py_bind m f = (case m of Inl e \<Rightarrow> Inl e | Inr v \<Rightarrow> f v)"

subsection \<open>Compound interest\<close>

text \<open>The four figures that \<open>compound_interest_calculator\<close> shows with \<open>st.metric\<close>.\<close>

record growth_summary =
  total_future_value :: real
  total_contributions :: real
  total_interest :: real
  return_on_investment :: real

text \<open>\<open>compound_interest_calculator\<close>, lines 29 to 49: the arguments are the values of
  the four number inputs. The last metric divides by \<open>total_contributions\<close>.\<close>

definition compound_interest_calculator ::
    "real \<Rightarrow> real \<Rightarrow> real \<Rightarrow> int \<Rightarrow> py_error + growth_summary" where
  "compound_interest_calculator principal0 monthly_contribution annual_rate years =
     (let monthly_rate = annual_rate / 100 / 12;
          total_months = years * 12
      in py_bind (py_pow (1 + monthly_rate) total_months) (\<lambda>g.
         let fv_principal = principal0 * g
         in py_bind
              (if monthly_rate > 0
               then py_bind (py_pow (1 + monthly_rate) total_months) (\<lambda>g2.
                    py_bind (py_truediv (g2 - 1) monthly_rate) (\<lambda>d.
                    Inr (monthly_contribution * d)))
               else Inr (monthly_contribution * of_int total_months))
              (\<lambda>fv_annuity.
         let tfv = fv_principal + fv_annuity;
             tc = principal0 + monthly_contribution * of_int total_months;
             ti = tfv - tc
         in py_bind (py_truediv ti tc) (\<lambda>q.
            Inr \<lparr>total_future_value = tfv, total_contributions = tc,
                 total_interest = ti, return_on_investment = q * 100\<rparr>))))"

text \<open>The four lists that \<open>_create_compound_interest_chart\<close> fills and plots.\<close>

record growth_series =
  years_data :: "int list"
  principal_values :: "real list"
  contribution_values :: "real list"
  total_values :: "real list"

text \<open>The body of the loop over \<open>year\<close>: the three values appended for that year.\<close>

definition chart_point ::
    "real \<Rightarrow> real \<Rightarrow> real \<Rightarrow> int \<Rightarrow> py_error + (real \<times> real \<times> real)" where
  "chart_point principal0 monthly_contribution monthly_rate year =
     (let months = year * 12
      in if months = 0 then Inr (principal0, 0, principal0)
         else py_bind (py_pow (1 + monthly_rate) months) (\<lambda>g.
              let principal_val = principal0 * g
              in py_bind
                   (if monthly_rate > 0
                    then py_bind (py_pow (1 + monthly_rate) months) (\<lambda>g2.
                         py_bind (py_truediv (g2 - 1) monthly_rate) (\<lambda>d.
                         Inr (monthly_contribution * d)))
                    else Inr (monthly_contribution * of_int months))
                   (\<lambda>contribution_val.
                      Inr (principal_val, contribution_val, principal_val + contribution_val))))"

text \<open>The loop \<open>for year in range(years + 1)\<close>, threading the four lists.\<close>

fun chart_loop ::
    "real \<Rightarrow> real \<Rightarrow> real \<Rightarrow> int list \<Rightarrow> growth_series \<Rightarrow> py_error + growth_series" where
  "chart_loop principal0 monthly_contribution monthly_rate [] acc = Inr acc"
| "chart_loop principal0 monthly_contribution monthly_rate (year # rest) acc =
     py_bind (chart_point principal0 monthly_contribution monthly_rate year)
       (\<lambda>(principal_val, contribution_val, total_val).
          chart_loop principal0 monthly_contribution monthly_rate rest
            \<lparr>years_data = years_data acc @ [year],
             principal_values = principal_values acc @ [principal_val],
             contribution_values = contribution_values acc @ [contribution_val],
             total_values = total_values acc @ [total_val]\<rparr>)"

text \<open>\<open>_create_compound_interest_chart\<close>, lines 57 to 87: \<open>range(years + 1)\<close> is
  \<open>[0..years]\<close>, empty when \<open>years\<close> is negative.\<close>

definition create_compound_interest_chart ::
    "real \<Rightarrow> real \<Rightarrow> real \<Rightarrow> int \<Rightarrow> py_error + growth_series" where
  "create_compound_interest_chart principal0 monthly_contribution annual_rate years =
     (let monthly_rate = annual_rate / 100 / 12
      in chart_loop principal0 monthly_contribution monthly_rate [0..years]
           \<lparr>years_data = [], principal_values = [], contribution_values = [],
            total_values = []\<rparr>)"

subsection \<open>Loan amortization\<close>

text \<open>One row of \<open>schedule_data\<close>. The row holds the numbers of the period; the source
  prints each amount with two decimals (\<open>:.2f\<close>) when it builds the table row.\<close>

record payment_record =
  Month :: int
  Payment :: real
  Principal :: real
  Interest :: real
  Balance :: real

text \<open>The loop \<open>for month in range(1, total_payments + 1)\<close> of
  \<open>_create_amortization_schedule\<close>, lines 276 to 295. \<open>balance\<close> and
  \<open>monthly_payment\<close> are the two variables the loop assigns; the \<open>break\<close> ends the
  schedule with the row just appended.\<close>

fun amortization_loop :: "real \<Rightarrow> int list \<Rightarrow> real \<Rightarrow> real \<Rightarrow> payment_record list" where
  "amortization_loop monthly_rate [] balance monthly_payment = []"
| "amortization_loop monthly_rate (month # rest) balance monthly_payment =
     (let interest_payment = balance * monthly_rate;
          principal_payment = monthly_payment - interest_payment;
          clamped = (principal_payment > balance);
          principal_payment2 = (if clamped then balance else principal_payment);
          monthly_payment2 =
            (if clamped then principal_payment2 + interest_payment else monthly_payment);
          balance2 = balance - principal_payment2;
          row = \<lparr>Month = month, Payment = monthly_payment2, Principal = principal_payment2,
                 Interest = interest_payment, Balance = balance2\<rparr>
      in if balance2 \<le> 0 then [row]
         else row # amortization_loop monthly_rate rest balance2 monthly_payment2)"

definition create_amortization_schedule ::
    "real \<Rightarrow> real \<Rightarrow> int \<Rightarrow> real \<Rightarrow> payment_record list" where
  "create_amortization_schedule loan_amount interest_rate loan_term monthly_payment =
     (let monthly_rate = interest_rate / 100 / 12;
          total_payments = loan_term * 12
      in amortization_loop monthly_rate [1..total_payments] loan_amount monthly_payment)"

text \<open>What \<open>loan_calculator\<close> computes from its three number inputs: the three
  amounts it shows and, with the schedule button pressed, the schedule for the
  monthly payment it has just computed.\<close>

record loan_result =
  loan_monthly_payment :: real
  loan_total_interest :: real
  loan_total_paid :: real
  loan_schedule :: "payment_record list"

definition loan_calculator :: "real \<Rightarrow> real \<Rightarrow> int \<Rightarrow> py_error + loan_result" where
  "loan_calculator loan_amount interest_rate loan_term =
     (let monthly_rate = interest_rate / 100 / 12;
          total_payments = loan_term * 12
      in py_bind
           (if monthly_rate > 0
            then py_bind (py_pow (1 + monthly_rate) total_payments) (\<lambda>g.
                 py_bind (py_pow (1 + monthly_rate) total_payments) (\<lambda>g2.
                 py_truediv (loan_amount * (monthly_rate * g)) (g2 - 1)))
            else py_truediv loan_amount (of_int total_payments))
           (\<lambda>monthly_payment.
              let total_paid = monthly_payment * of_int total_payments;
                  total_interest = total_paid - loan_amount
              in Inr \<lparr>loan_monthly_payment = monthly_payment,
                      loan_total_interest = total_interest,
                      loan_total_paid = total_paid,
                      loan_schedule = create_amortization_schedule loan_amount interest_rate
                                        loan_term monthly_payment\<rparr>))"

subsection \<open>The rows of the schedule table\<close>

text \<open>\<open>f"{x:.2f}"\<close> prints the decimal with two places that is nearest to \<open>x\<close>, a tie
  going to the even last digit. \<open>round_half_even\<close> is that rounding to an integer
  (of the amount in cents), \<open>format_2f x\<close> is the amount that the string shows. The
  amount is kept as a number; the dollar sign and the sign of a zero are left out.
  An exact real can be a tie where the double of the program is not.\<close>

definition round_half_even :: "real \<Rightarrow> int" where
  "round_half_even x =
     (let f = \<lfloor>x\<rfloor>; d = x - of_int f
      in if d < 1 / 2 then f else if d > 1 / 2 then f + 1
         else if even f then f else f + 1)"

definition format_2f :: "real \<Rightarrow> real" where
  "format_2f x = of_int (round_half_even (x * 100)) / 100"

text \<open>The dictionary appended to \<open>schedule_data\<close> (lines 286 to 292): the month, and
  the four amounts of the period as their \<open>"${x:.2f}"\<close> strings show them.\<close>

record schedule_row =
  row_month :: int
  row_payment :: real
  row_principal :: real
  row_interest :: real
  row_balance :: real

definition format_row :: "payment_record \<Rightarrow> schedule_row" where
  "format_row r =
     \<lparr>row_month = Month r, row_payment = format_2f (Payment r),
      row_principal = format_2f (Principal r), row_interest = format_2f (Interest r),
      row_balance = format_2f (Balance r)\<rparr>"

text \<open>\<open>schedule_data\<close> at the end of the loop: the row of each period, in order. The
  formatted strings are only appended, the loop goes on with the unrounded
  \<open>balance\<close> and \<open>monthly_payment\<close>.\<close>

definition schedule_data :: "real \<Rightarrow> real \<Rightarrow> int \<Rightarrow> real \<Rightarrow> schedule_row list" where
  "schedule_data loan_amount interest_rate loan_term monthly_payment =
     map format_row
       (create_amortization_schedule loan_amount interest_rate loan_term monthly_payment)"

text \<open>The table that \<open>loan_calculator\<close> shows for its three inputs: \<open>schedule_data\<close>
  for the monthly payment it has computed (line 265).\<close>

definition amortization_table :: "real \<Rightarrow> real \<Rightarrow> int \<Rightarrow> py_error + schedule_row list" where
  "amortization_table loan_amount interest_rate loan_term =
     py_bind (loan_calculator loan_amount interest_rate loan_term)
       (\<lambda>res. Inr (schedule_data loan_amount interest_rate loan_term
                      (loan_monthly_payment res)))"

subsection \<open>Auxiliary notions for the proofs\<close>

text \<open>The present value of \<open>n\<close> payments of one unit at the growth factor \<open>q\<close> per
  period: \<open>1/q + 1/q\<^sup>2 + \<dots> + 1/q\<^sup>n\<close>.\<close>

fun annuity_factor :: "real \<Rightarrow> nat \<Rightarrow> real" where
  "annuity_factor q 0 = 0"
| "annuity_factor q (Suc n) = (1 + annuity_factor q n) / q"

text \<open>The values of the growth series at year \<open>y\<close> as section 4.1 of the
  specification writes them, with \<open>r\<close> the monthly rate and \<open>m = 12 y\<close> months.\<close>

definition spec_principal_value :: "real \<Rightarrow> real \<Rightarrow> int \<Rightarrow> real" where
  "spec_principal_value p r y = p * (1 + r) ^ nat (y * 12)"

definition spec_contribution_value :: "real \<Rightarrow> real \<Rightarrow> int \<Rightarrow> real" where
  "spec_contribution_value c r y =
     (if r > 0 then c * (((1 + r) ^ nat (y * 12) - 1) / r) else c * of_int (y * 12))"

text \<open>The level payment of section 4.2 of the specification, for the monthly rate
  \<open>r\<close> and \<open>N\<close> periods.\<close>

definition spec_payment :: "real \<Rightarrow> real \<Rightarrow> nat \<Rightarrow> real" where
  "spec_payment L r N =
     (if r > 0 then L * (r * (1 + r) ^ N) / ((1 + r) ^ N - 1) else L / of_nat N)"

section \<open>Allocation recommender\<close>

lemma risk_profiles_conservative:
  "risk_profiles ''conservative'' = Some \<lparr>stocks = 30, bonds = 60, cash = 10\<rparr>"
  by (simp add: risk_profiles_def)

lemma risk_profiles_moderate:
  "risk_profiles ''moderate'' = Some \<lparr>stocks = 50, bonds = 40, cash = 10\<rparr>"
  by (simp add: risk_profiles_def)

lemma risk_profiles_aggressive:
  "risk_profiles ''aggressive'' = Some \<lparr>stocks = 70, bonds = 20, cash = 10\<rparr>"
  by (simp add: risk_profiles_def)

lemmas risk_profiles_simps =
  risk_profiles_conservative risk_profiles_moderate risk_profiles_aggressive

text \<open>
  Claim C3. For each of the three risk profiles (conservative 30/60/10, moderate
  50/40/10, aggressive 70/20/10 as stocks/bonds/cash) and every age \<open>\<ge> 0\<close>, the
  recommendation has the stock share "base plus 10 below 30, plus 0 from 30 to 49,
  minus 10 from 50 on", clamped to \<open>[20, 80]\<close>; bonds are \<open>100 - stocks - cash\<close> and
  cash is the base cash share. In particular aggressive at 25 gives 80/10/10 and
  conservative at 60 gives 20/70/10.
\<close>

theorem recommend_age_adjusted:
  assumes "(p, bs, bc) \<in> {(''conservative'', 30, 10), (''moderate'', 50, 10), (''aggressive'', 70, 10)}"
      and "0 \<le> a"
  shows "get_portfolio_recommendation \<lparr>risk_tolerance = Some p, age = Some a, income = inc\<rparr> =
           Inr \<lparr>stocks = max 20 (min 80 (bs + (if a < 30 then 10 else if a < 50 then 0 else - 10))),
                bonds = 100 - max 20 (min 80 (bs + (if a < 30 then 10 else if a < 50 then 0 else - 10))) - bc,
                cash = bc\<rparr>
         \<and> get_portfolio_recommendation \<lparr>risk_tolerance = Some ''aggressive'', age = Some 25, income = inc\<rparr> =
           Inr \<lparr>stocks = 80, bonds = 10, cash = 10\<rparr>
         \<and> get_portfolio_recommendation \<lparr>risk_tolerance = Some ''conservative'', age = Some 60, income = inc\<rparr> =
           Inr \<lparr>stocks = 20, bonds = 70, cash = 10\<rparr>"
  using assms
  by (auto simp: get_portfolio_recommendation_def dict_get_def risk_profiles_simps Let_def)

theorem recommend_age_adjusted_witness:
  "get_portfolio_recommendation \<lparr>risk_tolerance = Some ''moderate'', age = Some 52, income = None\<rparr> =
     Inr \<lparr>stocks = 40, bonds = 50, cash = 10\<rparr>"
  using recommend_age_adjusted [of "''moderate''" 50 10 52 None] by simp

text \<open>
  Claim C5. For each of the three risk profiles and every age \<open>\<ge> 0\<close>, the
  recommended shares sum to exactly 100 and the stock share lies in \<open>[20, 80]\<close>.
\<close>

theorem recommend_sums_to_100:
  assumes "p \<in> {''conservative'', ''moderate'', ''aggressive''}" and "0 \<le> a"
  shows "\<exists>r. get_portfolio_recommendation \<lparr>risk_tolerance = Some p, age = Some a, income = inc\<rparr> = Inr r
           \<and> stocks r + bonds r + cash r = 100 \<and> 20 \<le> stocks r \<and> stocks r \<le> 80"
  using assms
  by (auto simp: get_portfolio_recommendation_def dict_get_def risk_profiles_simps Let_def)

theorem recommend_sums_to_100_witness:
  "\<exists>r. get_portfolio_recommendation \<lparr>risk_tolerance = Some ''aggressive'', age = Some 18, income = None\<rparr> = Inr r
     \<and> stocks r + bonds r + cash r = 100 \<and> 20 \<le> stocks r \<and> stocks r \<le> 80"
  using recommend_sums_to_100 [of "''aggressive''" 18 None] by simp

section \<open>Budget aggregator\<close>

text \<open>
  Claim C9. The budget summary of an empty transaction sequence has total 0, an empty
  category map and count 0, and is returned without an error. (The function has no
  raising path; the same summary is returned when the session holds no
  \<open>budget_data\<close> entry at all.)
\<close>

theorem budget_summary_empty:
  "get_budget_summary (Some []) =
     \<lparr>summary_total = 0, summary_categories = Map.empty, summary_count = 0\<rparr>
   \<and> get_budget_summary None =
     \<lparr>summary_total = 0, summary_categories = Map.empty, summary_count = 0\<rparr>"
  by (simp add: get_budget_summary_def)

section \<open>Compound growth projector\<close>

lemma py_bind_Inr [simp]: "py_bind (Inr v) f = f v"
  by (simp add: py_bind_def)

lemma py_bind_Inl [simp]: "py_bind (Inl e) f = Inl e"
  by (simp add: py_bind_def)

lemma chart_point_eq:
  assumes "0 \<le> y"
  shows "chart_point p c r y =
           Inr (spec_principal_value p r y, spec_contribution_value c r y,
                spec_principal_value p r y + spec_contribution_value c r y)"
  using assms
  by (auto simp: chart_point_def py_pow_def py_truediv_def Let_def
        spec_principal_value_def spec_contribution_value_def)

lemma chart_loop_eq:
  assumes "\<forall>y \<in> set ys. 0 \<le> y"
  shows "chart_loop p c r ys acc =
           Inr \<lparr>years_data = years_data acc @ ys,
                principal_values = principal_values acc @ map (spec_principal_value p r) ys,
                contribution_values = contribution_values acc @ map (spec_contribution_value c r) ys,
                total_values = total_values acc @
                  map (\<lambda>y. spec_principal_value p r y + spec_contribution_value c r y) ys\<rparr>"
  using assms
proof (induction ys arbitrary: acc)
  case Nil
  then show ?case by simp
next
  case (Cons y ys)
  then show ?case by (simp add: chart_point_eq)
qed

lemma chart_eq:
  "create_compound_interest_chart p c a years =
     Inr \<lparr>years_data = [0..years],
          principal_values = map (spec_principal_value p (a / 100 / 12)) [0..years],
          contribution_values = map (spec_contribution_value c (a / 100 / 12)) [0..years],
          total_values = map (\<lambda>y. spec_principal_value p (a / 100 / 12) y
                                 + spec_contribution_value c (a / 100 / 12) y) [0..years]\<rparr>"
  by (simp add: create_compound_interest_chart_def Let_def chart_loop_eq)

text \<open>
  Claim C2. For principal, contribution and rate \<open>\<ge> 0\<close>, a term \<open>\<ge> 1\<close> and every year
  \<open>y\<close> from 0 to the term, with \<open>m = 12 y\<close> and \<open>r = rate / 100 / 12\<close>, the point of the
  growth series at \<open>y\<close> has principal value \<open>principal * (1 + r) ^ m\<close>, contribution
  value \<open>contribution * (((1 + r) ^ m - 1) / r)\<close> when \<open>r > 0\<close> and \<open>contribution * m\<close>
  when \<open>r = 0\<close>, and total value their sum; the point at year 0 is
  \<open>(principal, 0)\<close>.
\<close>

theorem growth_point_formulas:
  assumes "0 \<le> p" "0 \<le> c" "0 \<le> a" "1 \<le> years" "0 \<le> y" "y \<le> years"
  shows "\<exists>s. create_compound_interest_chart p c a years = Inr s
          \<and> years_data s ! nat y = y
          \<and> principal_values s ! nat y = p * (1 + a / 100 / 12) ^ nat (y * 12)
          \<and> contribution_values s ! nat y =
              (if a / 100 / 12 > 0
               then c * (((1 + a / 100 / 12) ^ nat (y * 12) - 1) / (a / 100 / 12))
               else c * of_int (y * 12))
          \<and> total_values s ! nat y = principal_values s ! nat y + contribution_values s ! nat y
          \<and> principal_values s ! 0 = p \<and> contribution_values s ! 0 = 0"
proof -
  have len: "nat y < length [0..years]" using assms by simp
  have nth: "[0..years] ! nat y = y" using assms by (simp add: nth_upto)
  have len0: "0 < length [0..years]" using assms by simp
  have nth0: "[0..years] ! 0 = 0" using assms by (simp add: nth_upto)
  show ?thesis
    using len nth len0 nth0
    by (simp add: chart_eq nth_map spec_principal_value_def spec_contribution_value_def
          del: length_upto)
qed

theorem growth_point_formulas_witness:
  "\<exists>s. create_compound_interest_chart 1000 100 12 2 = Inr s
     \<and> years_data s ! nat 1 = 1
     \<and> principal_values s ! nat 1 = 1000 * (1 + 12 / 100 / 12) ^ nat (1 * 12)
     \<and> contribution_values s ! nat 1 =
         (if (12::real) / 100 / 12 > 0
          then 100 * (((1 + 12 / 100 / 12) ^ nat (1 * 12) - 1) / (12 / 100 / 12))
          else 100 * of_int (1 * 12))
     \<and> total_values s ! nat 1 = principal_values s ! nat 1 + contribution_values s ! nat 1
     \<and> principal_values s ! 0 = 1000 \<and> contribution_values s ! 0 = 0"
  by (rule growth_point_formulas) simp_all

lemma spec_principal_value_nonneg:
  "0 \<le> p \<Longrightarrow> 0 \<le> r \<Longrightarrow> 0 \<le> spec_principal_value p r y"
  by (simp add: spec_principal_value_def)

lemma spec_contribution_value_nonneg:
  assumes "0 \<le> c" "0 \<le> r" "0 \<le> y"
  shows "0 \<le> spec_contribution_value c r y"
proof (cases "r > 0")
  case True
  have "1 \<le> (1 + r) ^ nat (y * 12)" using assms by (simp add: one_le_power)
  then show ?thesis using True assms by (simp add: spec_contribution_value_def)
next
  case False
  then show ?thesis using assms by (simp add: spec_contribution_value_def)
qed

lemma spec_principal_value_mono:
  assumes "0 \<le> p" "0 \<le> r" "0 \<le> x" "x \<le> y"
  shows "spec_principal_value p r x \<le> spec_principal_value p r y"
proof -
  have "nat (x * 12) \<le> nat (y * 12)" using assms by simp
  then have "(1 + r) ^ nat (x * 12) \<le> (1 + r) ^ nat (y * 12)"
    using assms by (intro power_increasing) simp_all
  then show ?thesis using assms by (simp add: spec_principal_value_def mult_left_mono)
qed

lemma spec_contribution_value_mono:
  assumes "0 \<le> c" "0 \<le> r" "0 \<le> x" "x \<le> y"
  shows "spec_contribution_value c r x \<le> spec_contribution_value c r y"
proof (cases "r > 0")
  case True
  have "nat (x * 12) \<le> nat (y * 12)" using assms by simp
  then have "(1 + r) ^ nat (x * 12) \<le> (1 + r) ^ nat (y * 12)"
    using assms by (intro power_increasing) simp_all
  then have "((1 + r) ^ nat (x * 12) - 1) / r \<le> ((1 + r) ^ nat (y * 12) - 1) / r"
    using True by (simp add: divide_right_mono)
  then have "c * (((1 + r) ^ nat (x * 12) - 1) / r) \<le> c * (((1 + r) ^ nat (y * 12) - 1) / r)"
    using assms(1) by (rule mult_left_mono)
  then show ?thesis using True by (simp only: spec_contribution_value_def if_True)
next
  case False
  then show ?thesis using assms by (simp add: spec_contribution_value_def mult_left_mono)
qed

lemma sorted_map_upto:
  assumes "\<And>x y. 0 \<le> x \<Longrightarrow> x \<le> y \<Longrightarrow> f x \<le> (f y :: real)"
  shows "sorted (map f [0..n])"
proof -
  have "sorted_wrt (\<le>) [0..n]" by simp
  then have "sorted_wrt (\<lambda>x y. f x \<le> f y) [0..n]"
    by (rule sorted_wrt_mono_rel [rotated]) (simp add: assms)
  then show ?thesis by (simp add: sorted_map)
qed

text \<open>
  Claim C8. For principal, contribution and rate \<open>\<ge> 0\<close> and a term \<open>\<ge> 1\<close>, the growth
  series has exactly term + 1 points, in ascending order of the period (the years
  0, 1, \<dots>, term), every value of every point is \<open>\<ge> 0\<close>, and the total values are
  non-decreasing from period 0 to the term.
\<close>

theorem growth_series_monotone:
  assumes "0 \<le> p" "0 \<le> c" "0 \<le> a" "1 \<le> years"
  shows "\<exists>s. create_compound_interest_chart p c a years = Inr s
          \<and> length (years_data s) = nat (years + 1)
          \<and> length (principal_values s) = nat (years + 1)
          \<and> length (contribution_values s) = nat (years + 1)
          \<and> length (total_values s) = nat (years + 1)
          \<and> years_data s = [0..years]
          \<and> (\<forall>v \<in> set (principal_values s) \<union> set (contribution_values s) \<union> set (total_values s). 0 \<le> v)
          \<and> sorted (total_values s)"
proof -
  define r where "r = a / 100 / 12"
  have r: "0 \<le> r" using assms by (simp add: r_def)
  have mono: "sorted (map (\<lambda>y. spec_principal_value p r y + spec_contribution_value c r y) [0..years])"
    by (rule sorted_map_upto)
       (intro add_mono spec_principal_value_mono spec_contribution_value_mono assms r; assumption)
  have nonneg: "0 \<le> spec_principal_value p r y \<and> 0 \<le> spec_contribution_value c r y"
    if "0 \<le> y" for y
    using that assms r by (simp add: spec_principal_value_nonneg spec_contribution_value_nonneg)
  note eq = chart_eq [of p c a years, folded r_def]
  show ?thesis
    unfolding eq using mono nonneg by (auto simp: add_nonneg_nonneg)
qed

theorem growth_series_monotone_witness:
  "\<exists>s. create_compound_interest_chart 10000 500 7 20 = Inr s
     \<and> length (years_data s) = nat (20 + 1)
     \<and> length (principal_values s) = nat (20 + 1)
     \<and> length (contribution_values s) = nat (20 + 1)
     \<and> length (total_values s) = nat (20 + 1)
     \<and> years_data s = [0..20]
     \<and> (\<forall>v \<in> set (principal_values s) \<union> set (contribution_values s) \<union> set (total_values s). 0 \<le> v)
     \<and> sorted (total_values s)"
  by (rule growth_series_monotone) simp_all

text \<open>
  The summary figures where the contributed total is not zero: total contributed,
  total interest and the return on investment are as section 4.1 gives them.
\<close>

lemma summary_figures:
  assumes "0 \<le> p" "0 \<le> c" "0 \<le> a" "1 \<le> y" "p + c * of_int (y * 12) \<noteq> 0"
  shows "\<exists>s. compound_interest_calculator p c a y = Inr s
     \<and> total_contributions s = p + c * of_int y * 12
     \<and> total_interest s = total_future_value s - total_contributions s
     \<and> return_on_investment s = total_interest s / total_contributions s * 100"
  using assms
  by (auto simp: compound_interest_calculator_def py_pow_def py_truediv_def Let_def)

text \<open>
  Claim C6. The summary reports total contributed, total interest and the return on
  investment, and the return is reported as 0, not as a division error, when the
  contributed total is 0. The code divides by \<open>total_contributions\<close> without a
  guard: with principal 0 and contribution 0, both accepted by the number inputs
  (\<open>min_value=0.0\<close>), the call ends in \<open>ZeroDivisionError\<close>.
\<close>

theorem roi_division_by_zero:
  "compound_interest_calculator 0 0 7 20 = Inl ZeroDivisionError"
  by (simp add: compound_interest_calculator_def py_pow_def py_truediv_def Let_def)

text \<open>
  Claim C7, as stated: the projection fails with \<open>InvalidInput\<close> whenever
  principal, contribution or rate is negative or the term is below 1. The code has
  no such check: with a negative principal and contribution, or with a negative rate
  and term 0, the chart function returns a series, and the calculator returns its
  four figures for a negative principal and contribution.
\<close>

theorem growth_projection_unvalidated_counterexample:
  "create_compound_interest_chart (- 1000) (- 50) 0 1 =
     Inr \<lparr>years_data = [0, 1], principal_values = [- 1000, - 1000],
          contribution_values = [0, - 600], total_values = [- 1000, - 1600]\<rparr>
   \<and> create_compound_interest_chart (- 1000) (- 50) (- 12) 0 =
     Inr \<lparr>years_data = [0], principal_values = [- 1000],
          contribution_values = [0], total_values = [- 1000]\<rparr>
   \<and> compound_interest_calculator (- 1000) (- 50) 0 1 =
     Inr \<lparr>total_future_value = - 1600, total_contributions = - 1600,
          total_interest = 0, return_on_investment = 0\<rparr>"
  by (simp add: create_compound_interest_chart_def chart_point_def
        compound_interest_calculator_def py_pow_def py_truediv_def Let_def upto.simps)

text \<open>
  Within the rates and terms that the number inputs allow, and for negative rates
  down to -600, every power that the series computes lies between \<open>2 ^ -600\<close> and
  \<open>2 ^ 38\<close>, well inside the range of doubles.
\<close>

lemma growth_power_range:
  fixes b :: real
  assumes "1 / 2 \<le> b" "b \<le> 25 / 24" "n \<le> 600"
  shows "1 / 2 ^ 600 \<le> b ^ n \<and> b ^ n \<le> 2 ^ 38"
proof (cases "b \<le> 1")
  case True
  have "(1 / 2) ^ 600 \<le> (1 / 2 :: real) ^ n"
    using assms(3) by (intro power_decreasing) simp_all
  also have "\<dots> \<le> b ^ n" using assms(1) by (intro power_mono) simp_all
  finally have "1 / 2 ^ 600 \<le> b ^ n" by (simp add: power_one_over)
  moreover have "b ^ n \<le> 1" using True assms(1) by (intro power_le_one) simp_all
  ultimately show ?thesis by simp
next
  case False
  then have b: "1 \<le> b" by simp
  have "b ^ n \<le> b ^ 608" using b assms(3) by (intro power_increasing) simp_all
  also have "\<dots> \<le> (25 / 24) ^ 608" using b assms(2) by (intro power_mono) simp_all
  also have "\<dots> = ((25 / 24 :: real) ^ 16) ^ 38" by (simp add: power_mult [symmetric])
  also have "\<dots> \<le> 2 ^ 38"
    by (intro power_mono) (simp_all add: power_divide)
  finally have "b ^ n \<le> 2 ^ 38" .
  moreover have "1 \<le> b ^ n" using b by (rule one_le_power)
  ultimately show ?thesis by simp
qed

text \<open>
  Claim C7, amended. The projection validates nothing and has no \<open>InvalidInput\<close>
  failure: for every principal and contribution, negative ones included, every rate
  from -600 to 50 and every term up to 50 years, zero and negative terms included,
  it returns a series with one point for each year from 0 to the term (none when the
  term is negative); no division by zero occurs in it, and every power it computes
  stays inside the range of doubles.
\<close>

theorem growth_projection_unvalidated:
  assumes "- 600 \<le> a" "a \<le> 50" "years \<le> 50"
  shows "\<exists>s. create_compound_interest_chart p c a years = Inr s
          \<and> years_data s = [0..years]
          \<and> length (total_values s) = nat (years + 1)
          \<and> (\<forall>y \<in> set (years_data s).
                1 / 2 ^ 600 \<le> (1 + a / 100 / 12) ^ nat (y * 12)
              \<and> (1 + a / 100 / 12) ^ nat (y * 12) \<le> 2 ^ 38)"
proof -
  have base: "1 / 2 \<le> 1 + a / 100 / 12" "1 + a / 100 / 12 \<le> 25 / 24"
    using assms(1,2) by simp_all
  have "1 / 2 ^ 600 \<le> (1 + a / 100 / 12) ^ nat (y * 12)
      \<and> (1 + a / 100 / 12) ^ nat (y * 12) \<le> 2 ^ 38" if "y \<in> set [0..years]" for y
  proof -
    have "y * 12 \<le> 600" using that assms(3) by simp
    then have "nat (y * 12) \<le> 600" by simp
    with base show ?thesis by (rule growth_power_range)
  qed
  then show ?thesis by (simp add: chart_eq del: set_upto)
qed

theorem growth_projection_unvalidated_witness:
  "\<exists>s. create_compound_interest_chart (- 1000) (- 50) (- 12) 2 = Inr s
          \<and> years_data s = [0..2]
          \<and> length (total_values s) = nat (2 + 1)
          \<and> (\<forall>y \<in> set (years_data s).
                1 / 2 ^ 600 \<le> (1 + (- 12 :: real) / 100 / 12) ^ nat (y * 12)
              \<and> (1 + (- 12 :: real) / 100 / 12) ^ nat (y * 12) \<le> 2 ^ 38)"
  by (rule growth_projection_unvalidated) simp_all

section \<open>Amortization engine\<close>

lemma amortization_loop_Cons:
  "amortization_loop r (m # ms) b P =
     (let I = b * r;
          pr = (if P - I > b then b else P - I);
          row = \<lparr>Month = m, Payment = (if P - I > b then b + I else P), Principal = pr,
                 Interest = I, Balance = b - pr\<rparr>
      in if b - pr \<le> 0 then [row] else row # amortization_loop r ms (b - pr) P)"
  by (simp add: Let_def)

lemma amortization_loop_payment_split:
  "\<forall>row \<in> set (amortization_loop r ms b P). Payment row = Principal row + Interest row"
proof (induction ms arbitrary: b)
  case Nil
  show ?case by simp
next
  case (Cons m ms)
  show ?case using Cons.IH by (simp add: amortization_loop_Cons Let_def del: amortization_loop.simps)
qed

lemma amortization_loop_length: "length (amortization_loop r ms b P) \<le> length ms"
proof (induction ms arbitrary: b)
  case Nil
  show ?case by simp
next
  case (Cons m ms)
  show ?case using Cons.IH by (simp add: amortization_loop_Cons Let_def del: amortization_loop.simps)
qed

lemma amortization_loop_step:
  assumes "i < length (amortization_loop r ms b P)"
  shows "(let s = amortization_loop r ms b P;
              prev = (b # map Balance s) ! i;
              I = prev * r;
              pr = P - I
          in Month (s ! i) = ms ! i
           \<and> Interest (s ! i) = I
           \<and> Principal (s ! i) = (if pr > prev then prev else pr)
           \<and> Payment (s ! i) = (if pr > prev then prev + I else P)
           \<and> Balance (s ! i) = prev - Principal (s ! i))"
  using assms
proof (induction ms arbitrary: b i)
  case Nil
  then show ?case by simp
next
  case (Cons m ms)
  show ?case
  proof (cases i)
    case 0
    then show ?thesis by (simp add: amortization_loop_Cons Let_def del: amortization_loop.simps)
  next
    case (Suc j)
    define b2 where "b2 = b - (if P - b * r > b then b else P - b * r)"
    have pos: "\<not> b2 \<le> 0"
      using Cons.prems Suc unfolding b2_def
      by (auto simp: amortization_loop_Cons Let_def simp del: amortization_loop.simps split: if_splits)
    then have j: "j < length (amortization_loop r ms b2 P)"
      using Cons.prems Suc unfolding b2_def
      by (auto simp: amortization_loop_Cons Let_def simp del: amortization_loop.simps split: if_splits)
    have "amortization_loop r (m # ms) b P =
            \<lparr>Month = m, Payment = (if P - b * r > b then b + b * r else P),
             Principal = (if P - b * r > b then b else P - b * r),
             Interest = b * r, Balance = b2\<rparr> # amortization_loop r ms b2 P"
      using pos unfolding b2_def
      by (auto simp: amortization_loop_Cons Let_def simp del: amortization_loop.simps)
    then show ?thesis
      using Cons.IH [OF j] Suc by (simp add: Let_def del: amortization_loop.simps)
  qed
qed

lemma amortization_loop_positive_before_end:
  assumes "Suc i < length (amortization_loop r ms b P)"
  shows "0 < Balance (amortization_loop r ms b P ! i)"
  using assms
proof (induction ms arbitrary: b i)
  case Nil
  then show ?case by simp
next
  case (Cons m ms)
  define b2 where "b2 = b - (if P - b * r > b then b else P - b * r)"
  have pos: "\<not> b2 \<le> 0"
    using Cons.prems unfolding b2_def
    by (auto simp: amortization_loop_Cons Let_def simp del: amortization_loop.simps split: if_splits)
  have eq: "amortization_loop r (m # ms) b P =
            \<lparr>Month = m, Payment = (if P - b * r > b then b + b * r else P),
             Principal = (if P - b * r > b then b else P - b * r),
             Interest = b * r, Balance = b2\<rparr> # amortization_loop r ms b2 P"
    using pos unfolding b2_def
    by (auto simp: amortization_loop_Cons Let_def simp del: amortization_loop.simps)
  show ?case
  proof (cases i)
    case 0
    then show ?thesis using pos eq by simp
  next
    case (Suc j)
    then have "Suc j < length (amortization_loop r ms b2 P)"
      using Cons.prems eq by simp
    from Cons.IH [OF this] show ?thesis using eq Suc by simp
  qed
qed

lemma amortization_loop_stops_early:
  assumes "length (amortization_loop r ms b P) < length ms"
  shows "Balance (last (amortization_loop r ms b P)) \<le> 0"
  using assms
proof (induction ms arbitrary: b)
  case Nil
  then show ?case by simp
next
  case (Cons m ms)
  define b2 where "b2 = b - (if P - b * r > b then b else P - b * r)"
  show ?case
  proof (cases "b2 \<le> 0")
    case True
    then show ?thesis unfolding b2_def
      by (auto simp: amortization_loop_Cons Let_def simp del: amortization_loop.simps)
  next
    case False
    have eq: "amortization_loop r (m # ms) b P =
            \<lparr>Month = m, Payment = (if P - b * r > b then b + b * r else P),
             Principal = (if P - b * r > b then b else P - b * r),
             Interest = b * r, Balance = b2\<rparr> # amortization_loop r ms b2 P"
      using False unfolding b2_def
      by (auto simp: amortization_loop_Cons Let_def simp del: amortization_loop.simps)
    have len: "length (amortization_loop r ms b2 P) < length ms"
      using Cons.prems eq by simp
    then have "amortization_loop r ms b2 P \<noteq> []"
      using False by (cases ms) (auto simp: amortization_loop_Cons Let_def simp del: amortization_loop.simps)
    then show ?thesis using Cons.IH [OF len] eq by simp
  qed
qed

lemma annuity_factor_nonneg: "0 \<le> r \<Longrightarrow> 0 \<le> annuity_factor (1 + r) n"
  by (induction n) simp_all

lemma annuity_factor_pos: "0 \<le> r \<Longrightarrow> 0 < annuity_factor (1 + r) (Suc n)"
  using annuity_factor_nonneg [of r n] by (simp add: add_pos_nonneg)

lemma annuity_factor_closed:
  assumes "0 \<le> r"
  shows "r * annuity_factor (1 + r) n = 1 - 1 / (1 + r) ^ n"
proof (induction n)
  case 0
  show ?case by simp
next
  case (Suc n)
  have q: "1 + r \<noteq> 0" using assms by simp
  have "r * annuity_factor (1 + r) (Suc n) = (r + r * annuity_factor (1 + r) n) / (1 + r)"
    by (simp add: algebra_simps)
  also have "\<dots> = ((1 + r) - 1 / (1 + r) ^ n) / (1 + r)"
    by (simp add: Suc.IH)
  also have "\<dots> = 1 - 1 / (1 + r) ^ Suc n"
    using q by (simp add: diff_divide_distrib)
  finally show ?case .
qed

lemma annuity_factor_rate_le_1: "0 \<le> r \<Longrightarrow> r * annuity_factor (1 + r) n \<le> 1"
  by (simp add: annuity_factor_closed)

lemma annuity_factor_zero_rate: "annuity_factor 1 n = of_nat n"
  by (induction n) simp_all

lemma amortization_loop_annuity:
  assumes "0 \<le> r" "0 < P" "ms \<noteq> []" "b = P * annuity_factor (1 + r) (length ms)"
  shows "length (amortization_loop r ms b P) = length ms
       \<and> sum_list (map Principal (amortization_loop r ms b P)) = b
       \<and> sorted_wrt (\<lambda>x y. y \<le> x) (b # map Balance (amortization_loop r ms b P))
       \<and> (\<forall>row \<in> set (amortization_loop r ms b P). 0 \<le> Balance row)
       \<and> Balance (last (amortization_loop r ms b P)) = 0"
  using assms(3,4)
proof (induction ms arbitrary: b)
  case Nil
  then show ?case by simp
next
  case (Cons m ms)
  define n where "n = length ms"
  define b2 where "b2 = P * annuity_factor (1 + r) n"
  have q: "0 < 1 + r" using assms(1) by simp
  have b: "b = P * (1 + annuity_factor (1 + r) n) / (1 + r)"
    using Cons.prems by (simp add: n_def)
  have "b * (1 + r) = P * (1 + annuity_factor (1 + r) n)"
    using q unfolding b by simp
  then have step: "b - (P - b * r) = b2"
    unfolding b2_def by (simp add: algebra_simps)
  have b2_nonneg: "0 \<le> b2"
    unfolding b2_def using assms(1,2) by (simp add: annuity_factor_nonneg)
  have noclamp: "\<not> P - b * r > b" using step b2_nonneg by linarith
  have "P * (r * annuity_factor (1 + r) n) \<le> P * 1"
    using assms(1,2) by (intro mult_left_mono annuity_factor_rate_le_1) simp_all
  then have "b2 * r \<le> P" unfolding b2_def by (simp add: mult_ac)
  moreover have "b * (1 + r) = P + b2" using step by (simp add: algebra_simps)
  ultimately have "b2 * (1 + r) \<le> b * (1 + r)" by (simp add: algebra_simps)
  then have b_ge: "b2 \<le> b" using q by simp
  show ?case
  proof (cases ms)
    case Nil
    then have "b2 = 0" by (simp add: b2_def n_def)
    then show ?thesis
      using Nil noclamp step b_ge
      by (simp add: amortization_loop_Cons Let_def del: amortization_loop.simps)
  next
    case (Cons m' ms')
    then have "0 < b2"
      unfolding b2_def n_def using assms(1,2) by (simp add: annuity_factor_pos del: annuity_factor.simps)
    then have eq: "amortization_loop r (m # ms) b P =
            \<lparr>Month = m, Payment = P, Principal = P - b * r, Interest = b * r, Balance = b2\<rparr>
            # amortization_loop r ms b2 P"
      using noclamp step
      by (simp add: amortization_loop_Cons Let_def del: amortization_loop.simps)
    have ne: "ms \<noteq> []" using Cons by simp
    have ih: "length (amortization_loop r ms b2 P) = length ms
       \<and> sum_list (map Principal (amortization_loop r ms b2 P)) = b2
       \<and> sorted_wrt (\<lambda>x y. y \<le> x) (b2 # map Balance (amortization_loop r ms b2 P))
       \<and> (\<forall>row \<in> set (amortization_loop r ms b2 P). 0 \<le> Balance row)
       \<and> Balance (last (amortization_loop r ms b2 P)) = 0"
      by (rule Cons.IH [OF ne]) (simp add: b2_def n_def)
    then have nonempty: "amortization_loop r ms b2 P \<noteq> []" using ne by auto
    have sum: "P - b * r + b2 = b" using step by simp
    show ?thesis
      unfolding eq using ih nonempty sum b_ge b2_nonneg by auto
  qed
qed

lemma loan_calculator_eq:
  assumes "0 \<le> rate" "1 \<le> term"
  shows "loan_calculator L rate term =
           Inr \<lparr>loan_monthly_payment = spec_payment L (rate / 100 / 12) (nat (term * 12)),
                loan_total_interest =
                  spec_payment L (rate / 100 / 12) (nat (term * 12)) * of_int (term * 12) - L,
                loan_total_paid =
                  spec_payment L (rate / 100 / 12) (nat (term * 12)) * of_int (term * 12),
                loan_schedule = create_amortization_schedule L rate term
                  (spec_payment L (rate / 100 / 12) (nat (term * 12)))\<rparr>"
proof (cases "rate > 0")
  case True
  have "1 < (1 + rate / 1200) ^ nat (term * 12)"
    using True assms(2) by (intro one_less_power) simp_all
  then have "(1 + rate / 1200) ^ nat (term * 12) \<noteq> 1" by linarith
  then show ?thesis
    using True assms(2)
    by (simp add: loan_calculator_def py_pow_def py_truediv_def Let_def spec_payment_def)
next
  case False
  then have "rate = 0" using assms(1) by simp
  then show ?thesis
    using assms(2)
    by (simp add: loan_calculator_def py_pow_def py_truediv_def Let_def spec_payment_def)
qed

lemma spec_payment_pos:
  assumes "0 < L" "0 \<le> r" "0 < N"
  shows "0 < spec_payment L r N"
proof (cases "r > 0")
  case True
  have "1 < (1 + r) ^ N" using True assms(3) by (intro one_less_power) simp_all
  then show ?thesis using True assms(1) by (simp add: spec_payment_def)
next
  case False
  then show ?thesis using assms by (simp add: spec_payment_def)
qed

lemma spec_payment_annuity:
  assumes "0 \<le> r" "0 < N"
  shows "spec_payment L r N * annuity_factor (1 + r) N = L"
proof (cases "r > 0")
  case True
  have gt: "1 < (1 + r) ^ N" using True assms(2) by (intro one_less_power) simp_all
  have q: "(1 + r) ^ N \<noteq> 0" using gt by linarith
  have "r * annuity_factor (1 + r) N = ((1 + r) ^ N - 1) / (1 + r) ^ N"
    using q by (simp only: annuity_factor_closed [OF assms(1)] diff_divide_distrib) simp
  then have "annuity_factor (1 + r) N = ((1 + r) ^ N - 1) / (r * (1 + r) ^ N)"
    using True by (simp add: field_simps)
  then show ?thesis using True gt by (simp add: spec_payment_def)
next
  case False
  then have "r = 0" using assms(1) by simp
  then show ?thesis using assms(2) by (simp add: spec_payment_def annuity_factor_zero_rate)
qed

text \<open>
  The schedule in exact arithmetic. For a loan amount \<open>> 0\<close>, a rate \<open>\<ge> 0\<close> and a term
  \<open>\<ge> 1\<close>, the schedule has one record for each of the \<open>12 * term\<close> periods, the
  principal portions add up to the loan amount, the remaining balance never
  increases from one record to the next and is never negative, and the remaining
  balance of the final record is 0. The deviation of the double arithmetic of the
  program from these equalities is rounding error, which this embedding does not
  describe.
\<close>

lemma schedule_exact_arithmetic:
  assumes "0 < L" "0 \<le> rate" "1 \<le> term"
  shows "\<exists>res. loan_calculator L rate term = Inr res
          \<and> length (loan_schedule res) = nat (term * 12)
          \<and> sum_list (map Principal (loan_schedule res)) = L
          \<and> sorted_wrt (\<lambda>x y. y \<le> x) (L # map Balance (loan_schedule res))
          \<and> (\<forall>row \<in> set (loan_schedule res). 0 \<le> Balance row)
          \<and> Balance (last (loan_schedule res)) = 0"
proof -
  define r where "r = rate / 100 / 12"
  define N where "N = nat (term * 12)"
  define P where "P = spec_payment L r N"
  define ms where "ms = [1..term * 12]"
  have r: "0 \<le> r" using assms(2) by (simp add: r_def)
  have N: "0 < N" using assms(3) by (simp add: N_def)
  have len: "length ms = N" using assms(3) by (simp add: ms_def N_def)
  have ne: "ms \<noteq> []" using len N by auto
  have P: "0 < P" unfolding P_def using assms(1) r N by (rule spec_payment_pos)
  have L: "L = P * annuity_factor (1 + r) (length ms)"
    unfolding P_def len using r N by (simp add: spec_payment_annuity)
  have sched: "create_amortization_schedule L rate term P = amortization_loop r ms L P"
    by (simp add: create_amortization_schedule_def Let_def r_def ms_def)
  note inv = amortization_loop_annuity [OF r P ne L]
  have res: "loan_calculator L rate term =
           Inr \<lparr>loan_monthly_payment = P, loan_total_interest = P * of_int (term * 12) - L,
                loan_total_paid = P * of_int (term * 12),
                loan_schedule = amortization_loop r ms L P\<rparr>"
    using loan_calculator_eq [OF assms(2,3), of L] sched
    unfolding P_def r_def N_def by simp
  show ?thesis using inv len unfolding res N_def by simp
qed

lemma schedule_example:
  "create_amortization_schedule 1000 12 1 600 =
     [\<lparr>Month = 1, Payment = 600, Principal = 590, Interest = 10, Balance = 410\<rparr>,
      \<lparr>Month = 2, Payment = 4141 / 10, Principal = 410, Interest = 41 / 10, Balance = 0\<rparr>]"
  by (simp add: create_amortization_schedule_def Let_def upto.simps)

text \<open>
  The numbers of a period, before they are printed: the payment is the principal
  portion plus the interest portion, in the clamped final period too.
\<close>

lemma schedule_payment_split:
  "\<forall>row \<in> set (create_amortization_schedule L rate term P).
     Payment row = Principal row + Interest row"
  by (simp add: create_amortization_schedule_def Let_def amortization_loop_payment_split
        del: amortization_loop.simps)

text \<open>
  Claim C4. For a loan amount \<open>> 0\<close>, a rate \<open>\<ge> 0\<close> and a term \<open>\<ge> 1\<close>, the schedule is
  built for the level payment of the annuity formula, and in each period \<open>i\<close> from 1
  on, with \<open>balance\<^bsub>i-1\<^esub>\<close> the balance of the record before (the loan amount for the
  first): the interest is \<open>balance\<^bsub>i-1\<^esub> * r\<close>, the principal is \<open>payment - interest\<close>,
  replaced by \<open>balance\<^bsub>i-1\<^esub>\<close> when it exceeds it, in which case the payment recorded
  is principal plus interest; the new balance is \<open>balance\<^bsub>i-1\<^esub> - principal\<close>. Every
  record but the last has a positive balance, a schedule shorter than \<open>N = 12 * term\<close>
  ends with a balance \<open>\<le> 0\<close>, and the length is at most \<open>N\<close>. The recurrence is stated
  for any monthly payment \<open>P\<close> handed to the schedule.
\<close>

theorem schedule_recurrence:
  assumes "0 < L" "0 \<le> rate" "1 \<le> term"
  shows "(\<exists>res. loan_calculator L rate term = Inr res
            \<and> loan_monthly_payment res =
                (if rate / 100 / 12 > 0
                 then L * (rate / 100 / 12 * (1 + rate / 100 / 12) ^ nat (term * 12))
                        / ((1 + rate / 100 / 12) ^ nat (term * 12) - 1)
                 else L / of_nat (nat (term * 12)))
            \<and> loan_schedule res =
                create_amortization_schedule L rate term (loan_monthly_payment res))
       \<and> (let s = create_amortization_schedule L rate term P; r = rate / 100 / 12
          in length s \<le> nat (term * 12)
           \<and> (\<forall>i < length s.
                 let prev = (L # map Balance s) ! i; I = prev * r; pr = P - I
                 in Month (s ! i) = int i + 1
                  \<and> Interest (s ! i) = I
                  \<and> Principal (s ! i) = (if pr > prev then prev else pr)
                  \<and> Payment (s ! i) = (if pr > prev then Principal (s ! i) + Interest (s ! i) else P)
                  \<and> Balance (s ! i) = prev - Principal (s ! i))
           \<and> (\<forall>i. Suc i < length s \<longrightarrow> 0 < Balance (s ! i))
           \<and> (length s < nat (term * 12) \<longrightarrow> Balance (last s) \<le> 0))"
proof -
  define r where "r = rate / 100 / 12"
  define ms where "ms = [1..term * 12]"
  define s where "s = amortization_loop r ms L P"
  have sched: "create_amortization_schedule L rate term P = s"
    by (simp add: create_amortization_schedule_def Let_def r_def ms_def s_def)
  have len_ms: "length ms = nat (term * 12)" by (simp add: ms_def)
  have len: "length s \<le> nat (term * 12)"
    unfolding s_def len_ms [symmetric] by (rule amortization_loop_length)
  have month: "ms ! i = int i + 1" if "i < length s" for i
  proof -
    have "i < length ms" using that len len_ms by simp
    then show ?thesis unfolding ms_def by (simp add: nth_upto)
  qed
  have step: "let prev = (L # map Balance s) ! i; I = prev * r; pr = P - I
                 in Month (s ! i) = int i + 1
                  \<and> Interest (s ! i) = I
                  \<and> Principal (s ! i) = (if pr > prev then prev else pr)
                  \<and> Payment (s ! i) = (if pr > prev then Principal (s ! i) + Interest (s ! i) else P)
                  \<and> Balance (s ! i) = prev - Principal (s ! i)"
    if "i < length s" for i
    using amortization_loop_step [of i r ms L P] that month [OF that]
    unfolding s_def [symmetric] by (simp add: Let_def)
  have pos: "0 < Balance (s ! i)" if "Suc i < length s" for i
    using that unfolding s_def by (rule amortization_loop_positive_before_end)
  have early: "Balance (last s) \<le> 0" if "length s < nat (term * 12)"
    using that unfolding s_def len_ms [symmetric] by (rule amortization_loop_stops_early)
  have calc: "\<exists>res. loan_calculator L rate term = Inr res
            \<and> loan_monthly_payment res =
                (if rate / 100 / 12 > 0
                 then L * (rate / 100 / 12 * (1 + rate / 100 / 12) ^ nat (term * 12))
                        / ((1 + rate / 100 / 12) ^ nat (term * 12) - 1)
                 else L / of_nat (nat (term * 12)))
            \<and> loan_schedule res =
                create_amortization_schedule L rate term (loan_monthly_payment res)"
    unfolding loan_calculator_eq [OF assms(2,3)] by (simp add: spec_payment_def)
  show ?thesis
    unfolding sched r_def [symmetric] Let_def
    using calc len step pos early unfolding r_def Let_def by blast
qed

theorem schedule_recurrence_witness:
  "(\<exists>res. loan_calculator 1000 12 1 = Inr res
            \<and> loan_monthly_payment res =
                (if (12::real) / 100 / 12 > 0
                 then 1000 * (12 / 100 / 12 * (1 + 12 / 100 / 12) ^ nat (1 * 12))
                        / ((1 + 12 / 100 / 12) ^ nat (1 * 12) - 1)
                 else 1000 / of_nat (nat (1 * 12)))
            \<and> loan_schedule res =
                create_amortization_schedule 1000 12 1 (loan_monthly_payment res))
       \<and> (let s = create_amortization_schedule 1000 12 1 600; r = 12 / 100 / 12
          in length s \<le> nat (1 * 12)
           \<and> (\<forall>i < length s.
                 let prev = (1000 # map Balance s) ! i; I = prev * r; pr = 600 - I
                 in Month (s ! i) = int i + 1
                  \<and> Interest (s ! i) = I
                  \<and> Principal (s ! i) = (if pr > prev then prev else pr)
                  \<and> Payment (s ! i) = (if pr > prev then Principal (s ! i) + Interest (s ! i) else 600)
                  \<and> Balance (s ! i) = prev - Principal (s ! i))
           \<and> (\<forall>i. Suc i < length s \<longrightarrow> 0 < Balance (s ! i))
           \<and> (length s < nat (1 * 12) \<longrightarrow> Balance (last s) \<le> 0))"
  by (rule schedule_recurrence) simp_all

section \<open>The recorded schedule table\<close>

lemma round_half_even_near: "\<bar>of_int (round_half_even x) - x\<bar> \<le> 1 / 2"
proof -
  have "of_int \<lfloor>x\<rfloor> \<le> x" "x < of_int \<lfloor>x\<rfloor> + 1" by linarith+
  then show ?thesis
    by (auto simp: round_half_even_def Let_def abs_le_iff)
qed

lemma round_half_even_of_int: "round_half_even (of_int k) = k"
  by (simp add: round_half_even_def)

lemma round_half_even_mono:
  assumes "x \<le> y"
  shows "round_half_even x \<le> round_half_even y"
proof (cases "x = y")
  case True
  then show ?thesis by simp
next
  case False
  then have "x < y" using assms by simp
  moreover have "of_int (round_half_even x) - 1 / 2 \<le> x"
    using round_half_even_near [of x] by linarith
  moreover have "y \<le> of_int (round_half_even y) + 1 / 2"
    using round_half_even_near [of y] by linarith
  ultimately have "(of_int (round_half_even x) :: real) < of_int (round_half_even y) + 1"
    by linarith
  then have "round_half_even x < round_half_even y + 1"
    by (metis of_int_1 of_int_add of_int_less_iff)
  then show ?thesis by simp
qed

lemma format_2f_near: "\<bar>format_2f x - x\<bar> \<le> 1 / 200"
proof -
  define e where "e = of_int (round_half_even (x * 100)) - x * 100"
  have eq: "format_2f x - x = e / 100"
    by (simp add: format_2f_def e_def diff_divide_distrib)
  have "\<bar>e\<bar> \<le> 1 / 2" unfolding e_def by (rule round_half_even_near)
  then have "e \<le> 1 / 2" "- e \<le> 1 / 2" by linarith+
  then have "e / 100 \<le> 1 / 200" "- (e / 100) \<le> 1 / 200" by linarith+
  then show ?thesis unfolding eq by (rule abs_leI)
qed

lemma format_2f_mono: "x \<le> y \<Longrightarrow> format_2f x \<le> format_2f y"
  using round_half_even_mono [of "x * 100" "y * 100"]
  by (simp add: format_2f_def divide_right_mono)

lemma format_2f_zero: "format_2f 0 = 0"
  using round_half_even_of_int [of 0] by (simp add: format_2f_def)

lemma format_2f_nonneg: "0 \<le> x \<Longrightarrow> 0 \<le> format_2f x"
  using format_2f_mono [of 0 x] by (simp add: format_2f_zero)

lemma format_2f_split:
  assumes "a = b + c"
  shows "\<bar>format_2f a - (format_2f b + format_2f c)\<bar> \<le> 1 / 100"
proof -
  define A where "A = round_half_even (a * 100)"
  define B where "B = round_half_even (b * 100)"
  define C where "C = round_half_even (c * 100)"
  define d where "d = A - (B + C)"
  have "\<bar>of_int A - a * 100\<bar> \<le> 1 / 2" "\<bar>of_int B - b * 100\<bar> \<le> 1 / 2"
       "\<bar>of_int C - c * 100\<bar> \<le> 1 / 2"
    unfolding A_def B_def C_def by (rule round_half_even_near)+
  moreover have "a * 100 = b * 100 + c * 100" using assms by simp
  moreover have "(of_int d :: real) = of_int A - (of_int B + of_int C)" by (simp add: d_def)
  ultimately have "(of_int d :: real) < 2" "- 2 < (of_int d :: real)" by linarith+
  then have "d < 2" "- 2 < d" by linarith+
  then have "d \<le> 1" "- 1 \<le> d" by simp_all
  then have "(of_int d :: real) \<le> 1" "- (of_int d :: real) \<le> 1" by linarith+
  then have bounds: "of_int d / (100 :: real) \<le> 1 / 100" "- (of_int d / (100 :: real)) \<le> 1 / 100"
    by linarith+
  have eq: "format_2f a - (format_2f b + format_2f c) = of_int d / 100"
    by (simp add: format_2f_def A_def B_def C_def d_def diff_divide_distrib add_divide_distrib)
  from bounds show ?thesis unfolding eq by (rule abs_leI)
qed

lemma sum_list_format_2f:
  "\<bar>sum_list (map (\<lambda>x. format_2f (f x)) xs) - sum_list (map f xs)\<bar> \<le> of_nat (length xs) / 200"
proof (induction xs)
  case Nil
  show ?case by simp
next
  case (Cons x xs)
  define S where "S = sum_list (map (\<lambda>x. format_2f (f x)) xs) - sum_list (map f xs)"
  define e where "e = format_2f (f x) - f x"
  define n where "n = (of_nat (length xs) :: real)"
  have "\<bar>e\<bar> \<le> 1 / 200" unfolding e_def by (rule format_2f_near)
  moreover have "\<bar>S\<bar> \<le> n / 200" using Cons.IH by (simp add: S_def n_def)
  ultimately have "\<bar>e + S\<bar> \<le> (1 + n) / 200"
    using abs_triangle_ineq [of e S] by (simp add: add_divide_distrib)
  moreover have "sum_list (map (\<lambda>x. format_2f (f x)) (x # xs)) - sum_list (map f (x # xs)) = e + S"
    by (simp add: e_def S_def)
  moreover have "of_nat (length (x # xs)) = 1 + n" by (simp add: n_def)
  ultimately show ?case by simp
qed

lemma format_row_simps:
  "row_month (format_row r) = Month r"
  "row_payment (format_row r) = format_2f (Payment r)"
  "row_principal (format_row r) = format_2f (Principal r)"
  "row_interest (format_row r) = format_2f (Interest r)"
  "row_balance (format_row r) = format_2f (Balance r)"
  by (simp_all add: format_row_def)

lemma loan_calculator_1200:
  "loan_calculator 1200 12 1 =
     Inr \<lparr>loan_monthly_payment = 12 * 101 ^ 12 / (101 ^ 12 - 100 ^ 12),
          loan_total_interest = 12 * 101 ^ 12 / (101 ^ 12 - 100 ^ 12) * 12 - 1200,
          loan_total_paid = 12 * 101 ^ 12 / (101 ^ 12 - 100 ^ 12) * 12,
          loan_schedule = create_amortization_schedule 1200 12 1
                            (12 * 101 ^ 12 / (101 ^ 12 - 100 ^ 12))\<rparr>"
  by (simp add: loan_calculator_def py_truediv_def py_pow_def Let_def power_divide)

text \<open>
  Claim C10, as stated: in every record of the schedule the recorded payment amount
  equals the recorded principal portion plus the recorded interest portion. The
  amounts recorded are the two-decimal strings of the row. For a loan of 1200 at
  12 percent over one year the second record shows a payment of 106.62, a principal
  portion of 95.56 and an interest portion of 11.05, which add up to 106.61.
\<close>

theorem recorded_payment_split_counterexample:
  "amortization_table 1200 12 1 = Inr
     [
      \<lparr>row_month = 1, row_payment = 5331 / 50, row_principal = 4731 / 50, row_interest = 12, row_balance = 55269 / 50\<rparr>,
      \<lparr>row_month = 2, row_payment = 5331 / 50, row_principal = 2389 / 25, row_interest = 221 / 20, row_balance = 50491 / 50\<rparr>,
      \<lparr>row_month = 3, row_payment = 5331 / 50, row_principal = 2413 / 25, row_interest = 101 / 10, row_balance = 9133 / 10\<rparr>,
      \<lparr>row_month = 4, row_payment = 5331 / 50, row_principal = 9749 / 100, row_interest = 913 / 100, row_balance = 81581 / 100\<rparr>,
      \<lparr>row_month = 5, row_payment = 5331 / 50, row_principal = 4923 / 50, row_interest = 204 / 25, row_balance = 14347 / 20\<rparr>,
      \<lparr>row_month = 6, row_payment = 5331 / 50, row_principal = 1989 / 20, row_interest = 717 / 100, row_balance = 61791 / 100\<rparr>,
      \<lparr>row_month = 7, row_payment = 5331 / 50, row_principal = 2511 / 25, row_interest = 309 / 50, row_balance = 51747 / 100\<rparr>,
      \<lparr>row_month = 8, row_payment = 5331 / 50, row_principal = 2536 / 25, row_interest = 517 / 100, row_balance = 20801 / 50\<rparr>,
      \<lparr>row_month = 9, row_payment = 5331 / 50, row_principal = 5123 / 50, row_interest = 104 / 25, row_balance = 7839 / 25\<rparr>,
      \<lparr>row_month = 10, row_payment = 5331 / 50, row_principal = 2587 / 25, row_interest = 157 / 50, row_balance = 5252 / 25\<rparr>,
      \<lparr>row_month = 11, row_payment = 5331 / 50, row_principal = 2613 / 25, row_interest = 21 / 10, row_balance = 2639 / 25\<rparr>,
      \<lparr>row_month = 12, row_payment = 5331 / 50, row_principal = 2639 / 25, row_interest = 53 / 50, row_balance = 0\<rparr>]
   \<and> row_payment \<lparr>row_month = 2, row_payment = 5331 / 50, row_principal = 2389 / 25,
                    row_interest = 221 / 20, row_balance = 50491 / 50\<rparr>
     \<noteq> row_principal \<lparr>row_month = 2, row_payment = 5331 / 50, row_principal = 2389 / 25,
                         row_interest = 221 / 20, row_balance = 50491 / 50\<rparr>
       + row_interest \<lparr>row_month = 2, row_payment = 5331 / 50, row_principal = 2389 / 25,
                        row_interest = 221 / 20, row_balance = 50491 / 50\<rparr>"
proof
  show "amortization_table 1200 12 1 = Inr
     [
      \<lparr>row_month = 1, row_payment = 5331 / 50, row_principal = 4731 / 50, row_interest = 12, row_balance = 55269 / 50\<rparr>,
      \<lparr>row_month = 2, row_payment = 5331 / 50, row_principal = 2389 / 25, row_interest = 221 / 20, row_balance = 50491 / 50\<rparr>,
      \<lparr>row_month = 3, row_payment = 5331 / 50, row_principal = 2413 / 25, row_interest = 101 / 10, row_balance = 9133 / 10\<rparr>,
      \<lparr>row_month = 4, row_payment = 5331 / 50, row_principal = 9749 / 100, row_interest = 913 / 100, row_balance = 81581 / 100\<rparr>,
      \<lparr>row_month = 5, row_payment = 5331 / 50, row_principal = 4923 / 50, row_interest = 204 / 25, row_balance = 14347 / 20\<rparr>,
      \<lparr>row_month = 6, row_payment = 5331 / 50, row_principal = 1989 / 20, row_interest = 717 / 100, row_balance = 61791 / 100\<rparr>,
      \<lparr>row_month = 7, row_payment = 5331 / 50, row_principal = 2511 / 25, row_interest = 309 / 50, row_balance = 51747 / 100\<rparr>,
      \<lparr>row_month = 8, row_payment = 5331 / 50, row_principal = 2536 / 25, row_interest = 517 / 100, row_balance = 20801 / 50\<rparr>,
      \<lparr>row_month = 9, row_payment = 5331 / 50, row_principal = 5123 / 50, row_interest = 104 / 25, row_balance = 7839 / 25\<rparr>,
      \<lparr>row_month = 10, row_payment = 5331 / 50, row_principal = 2587 / 25, row_interest = 157 / 50, row_balance = 5252 / 25\<rparr>,
      \<lparr>row_month = 11, row_payment = 5331 / 50, row_principal = 2613 / 25, row_interest = 21 / 10, row_balance = 2639 / 25\<rparr>,
      \<lparr>row_month = 12, row_payment = 5331 / 50, row_principal = 2639 / 25, row_interest = 53 / 50, row_balance = 0\<rparr>]"
    unfolding amortization_table_def loan_calculator_1200 py_bind_Inr loan_result.simps
      schedule_data_def
    by (simp add: create_amortization_schedule_def Let_def upto.simps
          format_row_def format_2f_def round_half_even_def)
qed simp

text \<open>
  Claim C10, amended. For a loan amount and a monthly payment between 0 and
  \<open>10\<^sup>6\<close>, a rate from 0 to 50 and a term of at most 30 years, in every record of the
  schedule, the final record with a clamped principal portion included, the
  recorded payment amount differs from the recorded principal portion plus the
  recorded interest portion by at most one cent.
\<close>

theorem recorded_payment_split:
  assumes "0 < L" "L \<le> 10 ^ 6" "0 \<le> P" "P \<le> 10 ^ 6" "0 \<le> rate" "rate \<le> 50" "term \<le> 30"
  shows "\<forall>row \<in> set (schedule_data L rate term P).
           \<bar>row_payment row - (row_principal row + row_interest row)\<bar> \<le> 1 / 100"
proof
  fix row assume "row \<in> set (schedule_data L rate term P)"
  then obtain r where r: "r \<in> set (create_amortization_schedule L rate term P)"
    and row: "row = format_row r"
    by (auto simp: schedule_data_def)
  have "Payment r = Principal r + Interest r"
    using schedule_payment_split r by blast
  then show "\<bar>row_payment row - (row_principal row + row_interest row)\<bar> \<le> 1 / 100"
    unfolding row format_row_simps by (rule format_2f_split)
qed

lemma schedule_data_example:
  "schedule_data 1000 12 1 600 =
     [\<lparr>row_month = 1, row_payment = 600, row_principal = 590, row_interest = 10,
       row_balance = 410\<rparr>,
      \<lparr>row_month = 2, row_payment = 4141 / 10, row_principal = 410, row_interest = 41 / 10,
       row_balance = 0\<rparr>]"
  by (simp add: schedule_data_def schedule_example format_row_def format_2f_def
        round_half_even_def)

theorem recorded_payment_split_witness:
  "\<lparr>row_month = 2, row_payment = 4141 / 10, row_principal = 410, row_interest = 41 / 10,
     row_balance = 0\<rparr> \<in> set (schedule_data 1000 12 1 600)
   \<and> \<bar>row_payment \<lparr>row_month = 2, row_payment = 4141 / 10, row_principal = 410,
                     row_interest = 41 / 10, row_balance = 0\<rparr>
       - (row_principal \<lparr>row_month = 2, row_payment = 4141 / 10, row_principal = 410,
                          row_interest = 41 / 10, row_balance = 0\<rparr>
          + row_interest \<lparr>row_month = 2, row_payment = 4141 / 10, row_principal = 410,
                           row_interest = 41 / 10, row_balance = 0\<rparr>)\<bar> \<le> 1 / 100"
proof -
  have mem: "\<lparr>row_month = 2, row_payment = 4141 / 10, row_principal = 410,
               row_interest = 41 / 10, row_balance = 0\<rparr> \<in> set (schedule_data 1000 12 1 600)"
    by (simp add: schedule_data_example)
  have all: "\<forall>row \<in> set (schedule_data 1000 12 1 600).
           \<bar>row_payment row - (row_principal row + row_interest row)\<bar> \<le> 1 / 100"
    by (rule recorded_payment_split) simp_all
  from mem bspec [OF all mem] show ?thesis by (rule conjI)
qed

lemma loan_calculator_1000:
  "loan_calculator 1000 0 1 =
     Inr \<lparr>loan_monthly_payment = 250 / 3, loan_total_interest = 0, loan_total_paid = 1000,
          loan_schedule = create_amortization_schedule 1000 0 1 (250 / 3)\<rparr>"
  by (simp add: loan_calculator_def py_truediv_def py_pow_def Let_def)

lemma amortization_table_1000:
  "amortization_table 1000 0 1 = Inr
     [
      \<lparr>row_month = 1, row_payment = 8333 / 100, row_principal = 8333 / 100, row_interest = 0, row_balance = 91667 / 100\<rparr>,
      \<lparr>row_month = 2, row_payment = 8333 / 100, row_principal = 8333 / 100, row_interest = 0, row_balance = 83333 / 100\<rparr>,
      \<lparr>row_month = 3, row_payment = 8333 / 100, row_principal = 8333 / 100, row_interest = 0, row_balance = 750\<rparr>,
      \<lparr>row_month = 4, row_payment = 8333 / 100, row_principal = 8333 / 100, row_interest = 0, row_balance = 66667 / 100\<rparr>,
      \<lparr>row_month = 5, row_payment = 8333 / 100, row_principal = 8333 / 100, row_interest = 0, row_balance = 58333 / 100\<rparr>,
      \<lparr>row_month = 6, row_payment = 8333 / 100, row_principal = 8333 / 100, row_interest = 0, row_balance = 500\<rparr>,
      \<lparr>row_month = 7, row_payment = 8333 / 100, row_principal = 8333 / 100, row_interest = 0, row_balance = 41667 / 100\<rparr>,
      \<lparr>row_month = 8, row_payment = 8333 / 100, row_principal = 8333 / 100, row_interest = 0, row_balance = 33333 / 100\<rparr>,
      \<lparr>row_month = 9, row_payment = 8333 / 100, row_principal = 8333 / 100, row_interest = 0, row_balance = 250\<rparr>,
      \<lparr>row_month = 10, row_payment = 8333 / 100, row_principal = 8333 / 100, row_interest = 0, row_balance = 16667 / 100\<rparr>,
      \<lparr>row_month = 11, row_payment = 8333 / 100, row_principal = 8333 / 100, row_interest = 0, row_balance = 8333 / 100\<rparr>,
      \<lparr>row_month = 12, row_payment = 8333 / 100, row_principal = 8333 / 100, row_interest = 0, row_balance = 0\<rparr>]"
  unfolding amortization_table_def loan_calculator_1000 py_bind_Inr loan_result.simps
    schedule_data_def
  by (simp add: create_amortization_schedule_def Let_def upto.simps
        format_row_def format_2f_def round_half_even_def)

text \<open>
  Claim C1, as stated: the principal portions of the emitted records add up to the
  loan amount within \<open>10\<^sup>-\<^sup>6\<close>. For a loan of 1000 at rate 0 over one year each of the
  twelve records shows a principal portion of 83.33; they add up to 999.96.
\<close>

theorem recorded_principal_sum_counterexample:
  "amortization_table 1000 0 1 = Inr
     [
      \<lparr>row_month = 1, row_payment = 8333 / 100, row_principal = 8333 / 100, row_interest = 0, row_balance = 91667 / 100\<rparr>,
      \<lparr>row_month = 2, row_payment = 8333 / 100, row_principal = 8333 / 100, row_interest = 0, row_balance = 83333 / 100\<rparr>,
      \<lparr>row_month = 3, row_payment = 8333 / 100, row_principal = 8333 / 100, row_interest = 0, row_balance = 750\<rparr>,
      \<lparr>row_month = 4, row_payment = 8333 / 100, row_principal = 8333 / 100, row_interest = 0, row_balance = 66667 / 100\<rparr>,
      \<lparr>row_month = 5, row_payment = 8333 / 100, row_principal = 8333 / 100, row_interest = 0, row_balance = 58333 / 100\<rparr>,
      \<lparr>row_month = 6, row_payment = 8333 / 100, row_principal = 8333 / 100, row_interest = 0, row_balance = 500\<rparr>,
      \<lparr>row_month = 7, row_payment = 8333 / 100, row_principal = 8333 / 100, row_interest = 0, row_balance = 41667 / 100\<rparr>,
      \<lparr>row_month = 8, row_payment = 8333 / 100, row_principal = 8333 / 100, row_interest = 0, row_balance = 33333 / 100\<rparr>,
      \<lparr>row_month = 9, row_payment = 8333 / 100, row_principal = 8333 / 100, row_interest = 0, row_balance = 250\<rparr>,
      \<lparr>row_month = 10, row_payment = 8333 / 100, row_principal = 8333 / 100, row_interest = 0, row_balance = 16667 / 100\<rparr>,
      \<lparr>row_month = 11, row_payment = 8333 / 100, row_principal = 8333 / 100, row_interest = 0, row_balance = 8333 / 100\<rparr>,
      \<lparr>row_month = 12, row_payment = 8333 / 100, row_principal = 8333 / 100, row_interest = 0, row_balance = 0\<rparr>]
   \<and> sum_list (map row_principal (projr (amortization_table 1000 0 1))) = 24999 / 25
   \<and> \<not> \<bar>sum_list (map row_principal (projr (amortization_table 1000 0 1))) - 1000\<bar>
         \<le> 1 / 10 ^ 6"
  by (simp add: amortization_table_1000)

text \<open>
  Claim C1, amended. For a loan amount from 1 to \<open>10\<^sup>5\<close>, a rate that is 0 or lies
  between 0.1 and 50, and a term from 1 to 30 years, the table has one record
  for each of the \<open>12 * term\<close> periods, the recorded principal portions add up to
  the loan amount within one cent for each record, the recorded remaining balance
  never increases from one record to the next and is never negative, and the
  recorded remaining balance of the final record is 0.00.
\<close>

theorem recorded_schedule_pays_off:
  assumes "1 \<le> L" "L \<le> 10 ^ 5" "rate = 0 \<or> (1 / 10 \<le> rate \<and> rate \<le> 50)"
      and "1 \<le> term" "term \<le> 30"
  shows "\<exists>rows. amortization_table L rate term = Inr rows
          \<and> length rows = nat (term * 12)
          \<and> \<bar>sum_list (map row_principal rows) - L\<bar> \<le> of_nat (length rows) / 100
          \<and> sorted_wrt (\<lambda>x y. y \<le> x) (map row_balance rows)
          \<and> (\<forall>row \<in> set rows. 0 \<le> row_balance row)
          \<and> row_balance (last rows) = 0"
proof -
  have rate: "0 \<le> rate" using assms(3) by auto
  have loan: "0 < L" using assms(1) by simp
  from schedule_exact_arithmetic [OF loan rate assms(4)]
  obtain res where res: "loan_calculator L rate term = Inr res"
    and len: "length (loan_schedule res) = nat (term * 12)"
    and total: "sum_list (map Principal (loan_schedule res)) = L"
    and sorted: "sorted_wrt (\<lambda>x y. y \<le> x) (L # map Balance (loan_schedule res))"
    and nonneg: "\<forall>row \<in> set (loan_schedule res). 0 \<le> Balance row"
    and final: "Balance (last (loan_schedule res)) = 0"
    by blast
  define s where "s = loan_schedule res"
  define rows where "rows = map format_row s"
  have sched: "create_amortization_schedule L rate term (loan_monthly_payment res) = s"
    using res loan_calculator_eq [OF rate assms(4), of L] by (auto simp: s_def)
  have table: "amortization_table L rate term = Inr rows"
    by (simp add: amortization_table_def res schedule_data_def sched rows_def)
  have ne: "s \<noteq> []" using len assms(4) by (auto simp: s_def)
  have l: "length rows = nat (term * 12)" using len by (simp add: rows_def s_def)
  have "map row_principal rows = map (\<lambda>r. format_2f (Principal r)) s"
    by (simp add: rows_def format_row_simps)
  then have "\<bar>sum_list (map row_principal rows) - sum_list (map Principal s)\<bar>
               \<le> of_nat (length s) / 200"
    using sum_list_format_2f [of Principal s] by simp
  moreover have "of_nat (length s) / 200 \<le> (of_nat (length s) / 100 :: real)" by simp
  ultimately have sum: "\<bar>sum_list (map row_principal rows) - L\<bar> \<le> of_nat (length rows) / 100"
    using total by (simp add: s_def rows_def)
  have "sorted_wrt (\<lambda>x y. y \<le> x) (map Balance s)" using sorted by (simp add: s_def)
  then have "sorted_wrt (\<lambda>x y. format_2f (Balance y) \<le> format_2f (Balance x)) s"
    unfolding sorted_wrt_map by (rule sorted_wrt_mono_rel [rotated]) (simp add: format_2f_mono)
  then have mono: "sorted_wrt (\<lambda>x y. y \<le> x) (map row_balance rows)"
    by (simp add: rows_def sorted_wrt_map format_row_simps)
  have pos: "\<forall>row \<in> set rows. 0 \<le> row_balance row"
    using nonneg by (auto simp: rows_def s_def format_row_simps format_2f_nonneg)
  have last: "row_balance (last rows) = 0"
    using ne final by (simp add: rows_def last_map format_row_simps s_def format_2f_zero)
  show ?thesis using table l sum mono pos last by blast
qed

theorem recorded_schedule_pays_off_witness:
  "\<exists>rows. amortization_table 25000 (17 / 2) 5 = Inr rows
          \<and> length rows = nat (5 * 12)
          \<and> \<bar>sum_list (map row_principal rows) - 25000\<bar> \<le> of_nat (length rows) / 100
          \<and> sorted_wrt (\<lambda>x y. y \<le> x) (map row_balance rows)
          \<and> (\<forall>row \<in> set rows. 0 \<le> row_balance row)
          \<and> row_balance (last rows) = 0"
  by (rule recorded_schedule_pays_off) simp_all

end
